theory Spec2Isabelle
  imports Main "HOL-Library.Sublist"
begin

section \<open>Python values\<close>

text \<open>
  A Python \<open>str\<close> is a sequence of Unicode code points, so a string is a list of
  natural numbers (the code points), not a list of 8-bit characters. \<open>lit\<close> turns an
  ASCII literal of the source into such a string.
\<close>

type_synonym pystr = "nat list"

definition lit :: "string \<Rightarrow> pystr" where
  "lit s = map of_char s"

text \<open>
  The parts of the Python runtime and of pandas the program calls but does not contain:
  the Unicode character database behind \<open>str.isalnum\<close> (beyond ASCII), \<open>repr\<close> of a
  string, \<open>int\<close> of a string (\<open>None\<close> when it raises \<open>ValueError\<close>), and the verdict
  of \<open>pd.merge\<close> on two key columns of different dtypes, given as their cells (\<open>False\<close>
  when it refuses them). They are parameters of the model; every theorem below holds for
  all of them.
\<close>

datatype pyval = PInt int | PStr pystr | PNone | PNaN | PList "pyval list"

record pylib =
  uni_isalnum :: "nat \<Rightarrow> bool"
  str_repr :: "pystr \<Rightarrow> pystr"
  str_int :: "pystr \<Rightarrow> int option"
  merge_dtypes_ok :: "pyval list \<Rightarrow> pyval list \<Rightarrow> bool"

definition isalnum :: "pylib \<Rightarrow> nat \<Rightarrow> bool" where
  "isalnum L c =
     (if c < 128
      then (48 \<le> c \<and> c \<le> 57) \<or> (65 \<le> c \<and> c \<le> 90) \<or> (97 \<le> c \<and> c \<le> 122)
      else uni_isalnum L c)"

text \<open>The code points \<open>str.rstrip()\<close> removes: the whitespace of CPython's \<open>str\<close>.\<close>

definition isspace :: "nat \<Rightarrow> bool" where
  "isspace c =
     ((9 \<le> c \<and> c \<le> 13) \<or> (28 \<le> c \<and> c \<le> 32) \<or> c = 133 \<or> c = 160 \<or> c = 5760
      \<or> (8192 \<le> c \<and> c \<le> 8202) \<or> c = 8232 \<or> c = 8233 \<or> c = 8239 \<or> c = 8287
      \<or> c = 12288)"

definition rstrip :: "pystr \<Rightarrow> pystr" where
  "rstrip s = rev (dropWhile isspace (rev s))"

section \<open>Identifier sanitizers\<close>

text \<open>
  \<^verbatim>\<open>"".join(c for c in filename if c.isalnum() or c in (' ', '_', '-')).rstrip()\<close>
\<close>

definition keeps :: "pylib \<Rightarrow> nat \<Rightarrow> bool" where
  "keeps L c = (isalnum L c \<or> c \<in> {of_char CHR '' '', of_char CHR ''_'', of_char CHR ''-''})"

definition sanitize_filename :: "pylib \<Rightarrow> pystr \<Rightarrow> pystr" where
  "sanitize_filename L filename = rstrip (filter (keeps L) filename)"

text \<open>\<^verbatim>\<open>"".join(c for c in team_name if c.isalnum())\<close>\<close>

definition sanitize_team_name :: "pylib \<Rightarrow> pystr \<Rightarrow> pystr" where
  "sanitize_team_name L team_name = filter (isalnum L) team_name"

text \<open>A string has trailing whitespace when it is non-empty and its last code point is whitespace.\<close>

definition trailing_space :: "pystr \<Rightarrow> bool" where
  "trailing_space s = (case rev s of [] \<Rightarrow> False | c # _ \<Rightarrow> isspace c)"

text \<open>
  A runtime for concrete evaluations: it knows no letter or digit beyond ASCII and its
  merge refuses every pair of key columns of different dtypes.
\<close>

definition ascii_lib :: pylib where
  "ascii_lib =
     \<lparr>uni_isalnum = (\<lambda>c. False), str_repr = (\<lambda>s. s), str_int = (\<lambda>s. None),
      merge_dtypes_ok = (\<lambda>l r. False)\<rparr>"

section \<open>Dynamic values, coercions and errors\<close>

text \<open>
  The values a cell of a provider table holds (\<open>pyval\<close>, declared above): integers,
  strings, \<open>None\<close>, the missing-value marker NaN of pandas, and lists. Floating-point
  numbers other than NaN are outside the model.
\<close>

text \<open>
  The exceptions the run can raise. \<open>IndexError\<close> is what \<open>matches.iloc[0]\<close> raises on
  an empty match list; \<open>ProviderError\<close> stands for whatever a provider call raises and
  \<open>OSError\<close> for a failed directory creation or file write.
\<close>

datatype error =
  IndexError | KeyError | TypeError | ValueError | AttributeError | ProviderError | OSError

fun digits :: "nat \<Rightarrow> pystr" where
  "digits n = (if n < 10 then [48 + n] else digits (n div 10) @ [48 + n mod 10])"

definition str_of_int :: "int \<Rightarrow> pystr" where
  "str_of_int i = (if i < 0 then of_char CHR ''-'' # digits (nat (- i)) else digits (nat i))"

fun join :: "pystr \<Rightarrow> pystr list \<Rightarrow> pystr" where
  "join sep [] = []"
| "join sep [x] = x"
| "join sep (x # y # ys) = x @ sep @ join sep (y # ys)"

fun py_repr :: "pylib \<Rightarrow> pyval \<Rightarrow> pystr" where
  "py_repr L (PInt i) = str_of_int i"
| "py_repr L (PStr s) = str_repr L s"
| "py_repr L PNone = lit ''None''"
| "py_repr L PNaN = lit ''nan''"
| "py_repr L (PList xs) = lit ''['' @ join (lit '', '') (map (py_repr L) xs) @ lit '']''"

text \<open>\<open>str(v)\<close>, which is also what an f-string field \<open>{v}\<close> inserts.\<close>

definition py_str :: "pylib \<Rightarrow> pyval \<Rightarrow> pystr" where
  "py_str L v = (case v of PStr s \<Rightarrow> s | _ \<Rightarrow> py_repr L v)"

text \<open>\<open>int(v)\<close>\<close>

definition py_int :: "pylib \<Rightarrow> pyval \<Rightarrow> error + int" where
  "py_int L v =
     (case v of
        PInt i \<Rightarrow> Inr i
      | PStr s \<Rightarrow> (case str_int L s of None \<Rightarrow> Inl ValueError | Some i \<Rightarrow> Inr i)
      | PNone \<Rightarrow> Inl TypeError
      | PNaN \<Rightarrow> Inl ValueError
      | PList xs \<Rightarrow> Inl TypeError)"

section \<open>Series and tables\<close>

text \<open>
  A row of a table (a pandas \<open>Series\<close>) maps column labels to values; \<open>row[k]\<close> raises
  \<open>KeyError\<close> on a missing label, \<open>row.get(k, d)\<close> returns \<open>d\<close>.
\<close>

type_synonym series = "pystr \<rightharpoonup> pyval"

definition getitem :: "series \<Rightarrow> pystr \<Rightarrow> error + pyval" where
  "getitem row k = (case row k of None \<Rightarrow> Inl KeyError | Some v \<Rightarrow> Inr v)"

definition get :: "series \<Rightarrow> pystr \<Rightarrow> pyval \<Rightarrow> pyval" where
  "get row k d = (case row k of None \<Rightarrow> d | Some v \<Rightarrow> v)"

text \<open>A table (a pandas \<open>DataFrame\<close>): its column labels and its rows, each row aligned with the labels.\<close>

record dataframe =
  columns :: "pystr list"
  rows :: "pyval list list"


definition df_empty :: "dataframe \<Rightarrow> bool" where
  "df_empty df = (columns df = [] \<or> rows df = [])"

definition iloc0 :: "dataframe \<Rightarrow> error + series" where
  "iloc0 df = (case rows df of [] \<Rightarrow> Inl IndexError | r # _ \<Rightarrow> Inr (map_of (zip (columns df) r)))"

text \<open>\<^verbatim>\<open>df.rename(columns={old: new}, inplace=True)\<close>: a label that is not there is left alone.\<close>

definition rename_column :: "pystr \<Rightarrow> pystr \<Rightarrow> dataframe \<Rightarrow> dataframe" where
  "rename_column old new df = df\<lparr>columns := map (\<lambda>c. if c = old then new else c) (columns df)\<rparr>"

section \<open>Frame-event merge\<close>

text \<open>
  The dtype pandas gives a column built from these cells: \<open>object\<close> as soon as a string
  or a list is among them, \<open>int64\<close> for integers only, \<open>float64\<close> for integers or NaN
  with missing values among them, and \<open>object\<close> for a column of \<open>None\<close> only or without
  cells. (In a \<open>float64\<close> column pandas holds the integers as the floating-point numbers
  they equal; the model keeps the integers.)
\<close>

datatype dtype = Int64 | Float64 | Object

definition is_int :: "pyval \<Rightarrow> bool" where
  "is_int v = (case v of PInt i \<Rightarrow> True | _ \<Rightarrow> False)"

definition is_str :: "pyval \<Rightarrow> bool" where
  "is_str v = (case v of PStr s \<Rightarrow> True | _ \<Rightarrow> False)"

definition is_list :: "pyval \<Rightarrow> bool" where
  "is_list v = (case v of PList xs \<Rightarrow> True | _ \<Rightarrow> False)"

definition is_null :: "pyval \<Rightarrow> bool" where
  "is_null v = (v = PNone \<or> v = PNaN)"

definition col_dtype :: "pyval list \<Rightarrow> dtype" where
  "col_dtype cells =
     (if list_ex (\<lambda>v. is_str v \<or> is_list v) cells then Object
      else if cells \<noteq> [] \<and> list_all is_int cells then Int64
      else if list_ex (\<lambda>v. is_int v \<or> v = PNaN) cells then Float64
      else Object)"

text \<open>The cells of the column under a label, top to bottom.\<close>

definition column :: "dataframe \<Rightarrow> pystr \<Rightarrow> pyval list" where
  "column df k =
     map (\<lambda>r. case map_of (zip (columns df) r) k of None \<Rightarrow> PNaN | Some v \<Rightarrow> v) (rows df)"

text \<open>
  \<^verbatim>\<open>pd.merge(left, right, how="left", on=keys)\<close>, in the order pandas proceeds:
  \<^item> the key labels must be present (\<open>KeyError\<close>) and unique (\<open>ValueError\<close>) on both sides;
  \<^item> the two columns of each key must be compatible: they are when exactly one of them
    has no cells or when their dtypes are equal, and otherwise as the library decides
    (\<open>ValueError\<close>: an \<open>int64\<close> against a column of strings is refused);
  \<^item> the key cells are hashed, which a list refuses (\<open>TypeError\<close>);
  \<^item> a label that both sides have outside the keys gets the suffix \<open>_x\<close> on the left and
    \<open>_y\<close> on the right, and a duplicate label made that way, on one side or across the
    two, is refused (\<open>MergeError\<close>, a \<open>ValueError\<close>);
  \<^item> the rows keep the order of the left table, each left row once per right row with
    matching keys, in the right table's order, or once with NaN in the right table's
    columns when no right row matches. Two key cells match when they are equal or both
    missing (\<open>None\<close> or NaN).
\<close>

definition key_dtypes_accepted :: "pylib \<Rightarrow> pyval list \<Rightarrow> pyval list \<Rightarrow> bool" where
  "key_dtypes_accepted L lk rk =
     ((lk = []) \<noteq> (rk = []) \<or> col_dtype lk = col_dtype rk \<or> merge_dtypes_ok L lk rk)"

definition key_values :: "pystr list \<Rightarrow> pystr list \<Rightarrow> pyval list \<Rightarrow> pyval option list" where
  "key_values keys cols r = map (map_of (zip cols r)) keys"

definition key_match :: "pyval option \<Rightarrow> pyval option \<Rightarrow> bool" where
  "key_match a b =
     (case a of
        None \<Rightarrow> b = None
      | Some x \<Rightarrow> (case b of None \<Rightarrow> False | Some y \<Rightarrow> x = y \<or> (is_null x \<and> is_null y)))"

definition other_columns :: "pystr list \<Rightarrow> pystr list \<Rightarrow> pystr list" where
  "other_columns keys cols = filter (\<lambda>c. c \<notin> set keys) cols"

definition other_values :: "pystr list \<Rightarrow> pystr list \<Rightarrow> pyval list \<Rightarrow> pyval list" where
  "other_values keys cols r = map snd (filter (\<lambda>(c, v). c \<notin> set keys) (zip cols r))"

definition left_labels :: "pystr list \<Rightarrow> pystr list \<Rightarrow> pystr list \<Rightarrow> pystr list" where
  "left_labels keys lc rc =
     map (\<lambda>c. if c \<notin> set keys \<and> c \<in> set rc then c @ lit ''_x'' else c) lc"

definition right_labels :: "pystr list \<Rightarrow> pystr list \<Rightarrow> pystr list \<Rightarrow> pystr list" where
  "right_labels keys lc rc =
     map (\<lambda>c. if c \<in> set lc then c @ lit ''_y'' else c) (other_columns keys rc)"

definition matching :: "pystr list \<Rightarrow> pystr list \<Rightarrow> dataframe \<Rightarrow> pyval list \<Rightarrow> pyval list list" where
  "matching keys lc right l =
     filter (\<lambda>r. list_all2 key_match (key_values keys (columns right) r) (key_values keys lc l))
       (rows right)"

definition join_row :: "pystr list \<Rightarrow> pystr list \<Rightarrow> dataframe \<Rightarrow> pyval list \<Rightarrow> pyval list list" where
  "join_row keys lc right l =
     (case matching keys lc right l of
        [] \<Rightarrow> [l @ replicate (length (other_columns keys (columns right))) PNaN]
      | m # ms \<Rightarrow> map (\<lambda>r. l @ other_values keys (columns right) r) (m # ms))"

definition pd_merge_left ::
  "pylib \<Rightarrow> dataframe \<Rightarrow> dataframe \<Rightarrow> pystr list \<Rightarrow> error + dataframe" where
  "pd_merge_left L left right keys =
     (if \<not> list_all (\<lambda>k. k \<in> set (columns left) \<and> k \<in> set (columns right)) keys
      then Inl KeyError
      else if \<not> list_all (\<lambda>k. count_list (columns left) k = 1 \<and> count_list (columns right) k = 1) keys
      then Inl ValueError
      else if \<not> list_all (\<lambda>k. key_dtypes_accepted L (column left k) (column right k)) keys
      then Inl ValueError
      else if list_ex (\<lambda>k. list_ex is_list (column left k) \<or> list_ex is_list (column right k)) keys
      then Inl TypeError
      else if \<not> distinct (left_labels keys (columns left) (columns right)
                           @ right_labels keys (columns left) (columns right))
      then Inl ValueError
      else Inr \<lparr>columns = left_labels keys (columns left) (columns right)
                            @ right_labels keys (columns left) (columns right),
                rows = concat (map (join_row keys (columns left) right) (rows left))\<rparr>)"

text \<open>
  \<^verbatim>\<open>
  if not frames_df.empty:
      frames_df.rename(columns={'event_uuid': 'id'}, inplace=True)
      merged_df = pd.merge(frames_df, events_df, how="left", on=["match_id", "id"])
  \<close>
  \<open>None\<close> is the skipped merge.
\<close>

definition merge_frames :: "pylib \<Rightarrow> dataframe \<Rightarrow> dataframe \<Rightarrow> error + dataframe option" where
  "merge_frames L frames_df events_df =
     (if df_empty frames_df then Inr None
      else case pd_merge_left L (rename_column (lit ''event_uuid'') (lit ''id'') frames_df)
                  events_df [lit ''match_id'', lit ''id''] of
             Inl e \<Rightarrow> Inl e
           | Inr merged_df \<Rightarrow> Inr (Some merged_df))"

section \<open>Match directory name\<close>

text \<open>
  \<open>sanitize_team_name\<close> applied to a cell of the match row. The generator iterates its
  argument: a string gives its characters; a list gives its elements, on each of which
  \<open>isalnum\<close> is called as a method (a string passes when it is non-empty and all
  alphanumeric, anything else has no such method); the other values are not iterable.
\<close>

definition str_isalnum :: "pylib \<Rightarrow> pystr \<Rightarrow> bool" where
  "str_isalnum L s = (s \<noteq> [] \<and> list_all (isalnum L) s)"

fun join_alnum :: "pylib \<Rightarrow> pyval list \<Rightarrow> error + pystr" where
  "join_alnum L [] = Inr []"
| "join_alnum L (PStr s # xs) =
     (case join_alnum L xs of
        Inl e \<Rightarrow> Inl e
      | Inr r \<Rightarrow> Inr ((if str_isalnum L s then s else []) @ r))"
| "join_alnum L (v # xs) = Inl AttributeError"

definition sanitize_team_name_val :: "pylib \<Rightarrow> pyval \<Rightarrow> error + pystr" where
  "sanitize_team_name_val L v =
     (case v of
        PStr s \<Rightarrow> Inr (sanitize_team_name L s)
      | PList xs \<Rightarrow> join_alnum L xs
      | PInt i \<Rightarrow> Inl TypeError
      | PNone \<Rightarrow> Inl TypeError
      | PNaN \<Rightarrow> Inl TypeError)"

text \<open>
  \<^verbatim>\<open>
  home_team = sanitize_team_name(match_row['home_team'])
  away_team = sanitize_team_name(match_row['away_team'])
  home_score = match_row.get('home_score', 0)
  away_score = match_row.get('away_score', 0)
  match_week = match_row.get('match_week', 0)
  match_dir_name = f"GW{match_week}_{home_team}_{home_score}-{away_score}_{away_team}"
  \<close>
\<close>

definition match_dir_name :: "pylib \<Rightarrow> series \<Rightarrow> error + pystr" where
  "match_dir_name L match_row =
     (case getitem match_row (lit ''home_team'') of
        Inl e \<Rightarrow> Inl e
      | Inr h \<Rightarrow>
     (case sanitize_team_name_val L h of
        Inl e \<Rightarrow> Inl e
      | Inr home_team \<Rightarrow>
     (case getitem match_row (lit ''away_team'') of
        Inl e \<Rightarrow> Inl e
      | Inr a \<Rightarrow>
     (case sanitize_team_name_val L a of
        Inl e \<Rightarrow> Inl e
      | Inr away_team \<Rightarrow>
          (let home_score = get match_row (lit ''home_score'') (PInt 0);
               away_score = get match_row (lit ''away_score'') (PInt 0);
               match_week = get match_row (lit ''match_week'') (PInt 0)
           in Inr (lit ''GW'' @ py_str L match_week @ lit ''_'' @ home_team @ lit ''_''
                   @ py_str L home_score @ lit ''-'' @ py_str L away_score @ lit ''_''
                   @ away_team))))))"

section \<open>Match metadata\<close>

text \<open>
  The dictionary \<open>match_metadata\<close> of \<open>download_leverkusen_data\<close>, as the list of its
  items in insertion order. The values are evaluated in the order of the source, so the
  first failing \<open>int(...)\<close> decides the exception.
\<close>

definition str_field :: "pylib \<Rightarrow> series \<Rightarrow> string \<Rightarrow> pyval \<Rightarrow> pystr \<times> pyval" where
  "str_field L match_row k d = (lit k, PStr (py_str L (get match_row (lit k) d)))"

definition metadata_items ::
  "pylib \<Rightarrow> int \<Rightarrow> series \<Rightarrow> int \<Rightarrow> int \<Rightarrow> int \<Rightarrow> (pystr \<times> pyval) list" where
  "metadata_items L match_id match_row home_score away_score match_week =
     [(lit ''match_id'', PInt match_id),
      str_field L match_row ''match_date'' (PStr (lit ''Unknown'')),
      str_field L match_row ''kick_off'' (PStr (lit ''Unknown'')),
      (lit ''competition_id'', PInt 9),
      (lit ''season_id'', PInt 281),
      str_field L match_row ''competition'' (PStr (lit ''1. Bundesliga'')),
      str_field L match_row ''season'' (PStr (lit ''2023/2024'')),
      str_field L match_row ''home_team'' (PStr (lit ''Unknown'')),
      str_field L match_row ''away_team'' (PStr (lit ''Unknown'')),
      (lit ''home_score'', PInt home_score),
      (lit ''away_score'', PInt away_score),
      str_field L match_row ''match_status'' (PStr (lit ''Unknown'')),
      str_field L match_row ''match_status_360'' (PStr (lit ''Unknown'')),
      str_field L match_row ''last_updated'' PNone,
      str_field L match_row ''last_updated_360'' PNone,
      (lit ''match_week'', PInt match_week),
      str_field L match_row ''competition_stage'' (PStr (lit ''Unknown'')),
      str_field L match_row ''stadium'' (PStr (lit ''Unknown'')),
      str_field L match_row ''referee'' (PStr (lit ''Unknown'')),
      (lit ''home_managers'', get match_row (lit ''home_managers'') (PList [])),
      (lit ''away_managers'', get match_row (lit ''away_managers'') (PList [])),
      str_field L match_row ''data_version'' (PStr (lit ''Unknown'')),
      str_field L match_row ''shot_fidelity_version'' (PStr (lit ''Unknown'')),
      str_field L match_row ''xy_fidelity_version'' (PStr (lit ''Unknown''))]"

definition match_metadata :: "pylib \<Rightarrow> int \<Rightarrow> series \<Rightarrow> error + (pystr \<times> pyval) list" where
  "match_metadata L match_id match_row =
     (case py_int L (get match_row (lit ''home_score'') (PInt 0)) of
        Inl e \<Rightarrow> Inl e
      | Inr home_score \<Rightarrow>
     (case py_int L (get match_row (lit ''away_score'') (PInt 0)) of
        Inl e \<Rightarrow> Inl e
      | Inr away_score \<Rightarrow>
     (case py_int L (get match_row (lit ''match_week'') (PInt 0)) of
        Inl e \<Rightarrow> Inl e
      | Inr match_week \<Rightarrow>
          Inr (metadata_items L match_id match_row home_score away_score match_week))))"

text \<open>The field table of the metadata document: name and declared type.\<close>

datatype ftype = TInt | TStr | TList

definition has_type :: "ftype \<Rightarrow> pyval \<Rightarrow> bool" where
  "has_type t v =
     (case t of
        TInt \<Rightarrow> (case v of PInt i \<Rightarrow> True | _ \<Rightarrow> False)
      | TStr \<Rightarrow> (case v of PStr s \<Rightarrow> True | _ \<Rightarrow> False)
      | TList \<Rightarrow> (case v of PList xs \<Rightarrow> True | _ \<Rightarrow> False))"

definition metadata_fields :: "(string \<times> ftype) list" where
  "metadata_fields =
     [(''match_id'', TInt), (''match_date'', TStr), (''kick_off'', TStr),
      (''competition_id'', TInt), (''season_id'', TInt), (''competition'', TStr),
      (''season'', TStr), (''home_team'', TStr), (''away_team'', TStr),
      (''home_score'', TInt), (''away_score'', TInt), (''match_status'', TStr),
      (''match_status_360'', TStr), (''last_updated'', TStr), (''last_updated_360'', TStr),
      (''match_week'', TInt), (''competition_stage'', TStr), (''stadium'', TStr),
      (''referee'', TStr), (''home_managers'', TList), (''away_managers'', TList),
      (''data_version'', TStr), (''shot_fidelity_version'', TStr),
      (''xy_fidelity_version'', TStr)]"

text \<open>
  The fields the builder reads from the match row: all but \<open>match_id\<close>, which it is
  given, and \<open>competition_id\<close> and \<open>season_id\<close>, which are constants.
\<close>

definition source_fields :: "(string \<times> ftype) list" where
  "source_fields =
     filter (\<lambda>(k, t). k \<notin> set [''match_id'', ''competition_id'', ''season_id'']) metadata_fields"

text \<open>
  A match row whose present cells can be brought to the declared type of their field:
  \<open>int\<close> succeeds on the cell of an integer field, the cell of a list field is a list;
  \<open>str\<close> succeeds on anything. Any field may be absent.
\<close>

definition coerces :: "pylib \<Rightarrow> ftype \<Rightarrow> pyval \<Rightarrow> bool" where
  "coerces L t v =
     (case t of
        TInt \<Rightarrow> (case py_int L v of Inl e \<Rightarrow> False | Inr i \<Rightarrow> True)
      | TStr \<Rightarrow> True
      | TList \<Rightarrow> has_type TList v)"

definition typed_row :: "pylib \<Rightarrow> series \<Rightarrow> bool" where
  "typed_row L match_row =
     list_all (\<lambda>(k, t). case match_row (lit k) of None \<Rightarrow> True | Some v \<Rightarrow> coerces L t v)
       source_fields"

text \<open>
  The value a field of declared type \<open>t\<close> has for a present cell \<open>v\<close>: \<open>int(v)\<close>,
  \<open>str(v)\<close>, or \<open>v\<close> itself for a list field.
\<close>

definition coerced :: "pylib \<Rightarrow> ftype \<Rightarrow> pyval \<Rightarrow> pyval" where
  "coerced L t v =
     (case t of
        TInt \<Rightarrow> (case py_int L v of Inl e \<Rightarrow> v | Inr i \<Rightarrow> PInt i)
      | TStr \<Rightarrow> PStr (py_str L v)
      | TList \<Rightarrow> v)"

text \<open>
  The documented defaults of the metadata document, as the specification's table gives
  them (the value the document holds when the source row lacks the field); \<open>match_id\<close>
  is required and \<open>competition_id\<close> and \<open>season_id\<close> are fixed inputs.
\<close>

definition documented_defaults :: "(string \<times> pyval) list" where
  "documented_defaults =
     [(''match_date'', PStr (lit ''Unknown'')), (''kick_off'', PStr (lit ''Unknown'')),
      (''competition'', PStr (lit ''1. Bundesliga'')), (''season'', PStr (lit ''2023/2024'')),
      (''home_team'', PStr (lit ''Unknown'')), (''away_team'', PStr (lit ''Unknown'')),
      (''home_score'', PInt 0), (''away_score'', PInt 0),
      (''match_status'', PStr (lit ''Unknown'')), (''match_status_360'', PStr (lit ''Unknown'')),
      (''last_updated'', PStr (lit ''None'')), (''last_updated_360'', PStr (lit ''None'')),
      (''match_week'', PInt 0), (''competition_stage'', PStr (lit ''Unknown'')),
      (''stadium'', PStr (lit ''Unknown'')), (''referee'', PStr (lit ''Unknown'')),
      (''home_managers'', PList []), (''away_managers'', PList []),
      (''data_version'', PStr (lit ''Unknown'')),
      (''shot_fidelity_version'', PStr (lit ''Unknown'')),
      (''xy_fidelity_version'', PStr (lit ''Unknown''))]"

text \<open>
  The match row of the specification's directory-naming example, and the same row with
  a score that is present but missing-valued.
\<close>

definition null_score_row :: series where
  "null_score_row =
     map_of [(lit ''match_id'', PInt 123), (lit ''match_week'', PInt 5),
             (lit ''home_team'', PStr (lit ''Bayer Leverkusen'')), (lit ''home_score'', PNaN),
             (lit ''away_team'', PStr (lit ''Bayern Munich'')), (lit ''away_score'', PInt 0)]"

definition example_row :: series where
  "example_row =
     map_of [(lit ''match_id'', PInt 123), (lit ''match_week'', PInt 5),
             (lit ''home_team'', PStr (lit ''Bayer Leverkusen'')), (lit ''home_score'', PInt 3),
             (lit ''away_team'', PStr (lit ''Bayern Munich'')), (lit ''away_score'', PInt 0)]"

section \<open>The run: provider, file system and effects\<close>

text \<open>
  The provider's answers and the paths on which a file-system operation fails are the
  environment of a run. What the run does is recorded, in order, as a list of effects:
  directories created, provider calls made, files written, lines printed.
\<close>

record world =
  sb_matches :: "int \<Rightarrow> int \<Rightarrow> error + dataframe"
  sb_events :: "int \<Rightarrow> error + dataframe"
  sb_frames :: "int \<Rightarrow> error + dataframe"
  sb_lineups :: "int \<Rightarrow> error + (pystr \<times> dataframe) list"
  os_error :: "pystr \<Rightarrow> bool"

datatype message =
  EventsColumns "pystr list" | FramesColumns "pystr list" | Processed pystr
  | ErrorOccurred error | Complete

datatype content = Csv dataframe | Json "(pystr \<times> pyval) list"

datatype effect =
  MakeDirs pystr | CallMatches int int | CallEvents int | CallFrames int | CallLineups int
  | WriteFile pystr content | Print message

type_synonym 'a run = "effect list \<Rightarrow> (error + 'a) \<times> effect list"

definition ret :: "'a \<Rightarrow> 'a run" where
  "ret x tr = (Inr x, tr)"

definition lift :: "error + 'a \<Rightarrow> 'a run" where
  "lift r tr = (r, tr)"

definition andthen :: "'a run \<Rightarrow> ('a \<Rightarrow> 'b run) \<Rightarrow> 'b run" where
  "andthen m f tr = (case m tr of (Inl e, tr') \<Rightarrow> (Inl e, tr') | (Inr x, tr') \<Rightarrow> f x tr')"

definition makedirs :: "world \<Rightarrow> pystr \<Rightarrow> unit run" where
  "makedirs W p tr = (if os_error W p then (Inl OSError, tr) else (Inr (), tr @ [MakeDirs p]))"

definition write_file :: "world \<Rightarrow> pystr \<Rightarrow> content \<Rightarrow> unit run" where
  "write_file W p c tr = (if os_error W p then (Inl OSError, tr) else (Inr (), tr @ [WriteFile p c]))"

definition print :: "message \<Rightarrow> unit run" where
  "print m tr = (Inr (), tr @ [Print m])"

definition call_matches :: "world \<Rightarrow> int \<Rightarrow> int \<Rightarrow> dataframe run" where
  "call_matches W c s tr = (sb_matches W c s, tr @ [CallMatches c s])"

definition call_events :: "world \<Rightarrow> int \<Rightarrow> dataframe run" where
  "call_events W m tr = (sb_events W m, tr @ [CallEvents m])"

definition call_frames :: "world \<Rightarrow> int \<Rightarrow> dataframe run" where
  "call_frames W m tr = (sb_frames W m, tr @ [CallFrames m])"

definition call_lineups :: "world \<Rightarrow> int \<Rightarrow> (pystr \<times> dataframe) list run" where
  "call_lineups W m tr = (sb_lineups W m, tr @ [CallLineups m])"

text \<open>\<open>os.path.join(a, b)\<close> on a POSIX system.\<close>

definition starts_slash :: "pystr \<Rightarrow> bool" where
  "starts_slash b = (case b of [] \<Rightarrow> False | c # _ \<Rightarrow> c = of_char CHR ''/'')"

definition ends_slash :: "pystr \<Rightarrow> bool" where
  "ends_slash a = (case rev a of [] \<Rightarrow> False | c # _ \<Rightarrow> c = of_char CHR ''/'')"

definition path_join :: "pystr \<Rightarrow> pystr \<Rightarrow> pystr" where
  "path_join a b =
     (if starts_slash b then b
      else if a = [] \<or> ends_slash a then a @ b
      else a @ lit ''/'' @ b)"

text \<open>\<^verbatim>\<open>os.makedirs(base_path, exist_ok=True); return base_path\<close>\<close>

definition create_data_directory :: "world \<Rightarrow> pystr \<Rightarrow> pystr run" where
  "create_data_directory W base_path = andthen (makedirs W base_path) (\<lambda>_. ret base_path)"

text \<open>
  \<^verbatim>\<open>
  for team, lineup_df in lineups.items():
      sanitized_team = sanitize_team_name(team)
      lineup_df.to_csv(os.path.join(match_dir, f'{sanitized_team}_lineups.csv'), index=False)
  \<close>
\<close>

fun save_lineups :: "world \<Rightarrow> pylib \<Rightarrow> pystr \<Rightarrow> (pystr \<times> dataframe) list \<Rightarrow> unit run" where
  "save_lineups W L match_dir [] = ret ()"
| "save_lineups W L match_dir ((team, lineup_df) # rest) =
     andthen
       (write_file W (path_join match_dir (sanitize_team_name L team @ lit ''_lineups.csv''))
          (Csv lineup_df))
       (\<lambda>_. save_lineups W L match_dir rest)"

text \<open>The merge step with its write: nothing is written when the merge is skipped.\<close>

definition save_frames ::
  "world \<Rightarrow> pylib \<Rightarrow> pystr \<Rightarrow> dataframe \<Rightarrow> dataframe \<Rightarrow> unit run" where
  "save_frames W L match_dir frames_df events_df =
     andthen (lift (merge_frames L frames_df events_df))
       (\<lambda>merged. case merged of
            None \<Rightarrow> ret ()
          | Some merged_df \<Rightarrow>
              write_file W (path_join match_dir (lit ''360_frames.csv'')) (Csv merged_df))"

text \<open>The body of the \<open>try\<close> block of \<open>download_leverkusen_data\<close>.\<close>

definition persist_match ::
  "world \<Rightarrow> pylib \<Rightarrow> pystr \<Rightarrow> pystr \<Rightarrow> int \<Rightarrow> series \<Rightarrow> unit run" where
  "persist_match W L match_dir dir_name match_id match_row =
     andthen (call_events W match_id) (\<lambda>events_df.
     andthen (call_frames W match_id) (\<lambda>frames_df.
     andthen (call_lineups W match_id) (\<lambda>lineups.
     andthen (save_lineups W L match_dir lineups) (\<lambda>_.
     andthen (print (EventsColumns (columns events_df))) (\<lambda>_.
     andthen (print (FramesColumns (columns frames_df))) (\<lambda>_.
     andthen (save_frames W L match_dir frames_df events_df) (\<lambda>_.
     andthen (write_file W (path_join match_dir (lit ''events.csv'')) (Csv events_df)) (\<lambda>_.
     andthen (lift (match_metadata L match_id match_row)) (\<lambda>metadata.
     andthen (write_file W (path_join match_dir (lit ''metadata.json'')) (Json metadata)) (\<lambda>_.
     print (Processed dir_name)))))))))))"

definition download_body :: "world \<Rightarrow> pylib \<Rightarrow> pystr \<Rightarrow> unit run" where
  "download_body W L base_path =
     andthen (call_matches W 9 281) (\<lambda>matches.
     andthen (lift (iloc0 matches)) (\<lambda>match_row.
     andthen (lift (getitem match_row (lit ''match_id''))) (\<lambda>v.
     andthen (lift (py_int L v)) (\<lambda>match_id.
     andthen (lift (match_dir_name L match_row)) (\<lambda>name.
     andthen (makedirs W (path_join base_path name)) (\<lambda>_.
     persist_match W L (path_join base_path name) name match_id match_row))))))"

text \<open>\<^verbatim>\<open>except Exception as e: print(f"An error occurred: {e}"); raise\<close>\<close>

definition download_leverkusen_data :: "world \<Rightarrow> pylib \<Rightarrow> pystr \<Rightarrow> unit run" where
  "download_leverkusen_data W L base_path tr =
     (case download_body W L base_path tr of
        (Inl e, tr') \<Rightarrow> (Inl e, tr' @ [Print (ErrorOccurred e)])
      | (Inr u, tr') \<Rightarrow> (Inr u, tr'))"

definition main :: "world \<Rightarrow> pylib \<Rightarrow> unit run" where
  "main W L =
     andthen (create_data_directory W (lit ''matches'')) (\<lambda>base_path.
     andthen (download_leverkusen_data W L base_path) (\<lambda>_.
     print Complete))"

section \<open>Observations on a run and example environments\<close>

text \<open>An effect that fetches data depending on the selected match.\<close>

definition fetches :: "effect \<Rightarrow> bool" where
  "fetches e = (case e of CallEvents m \<Rightarrow> True | CallFrames m \<Rightarrow> True | CallLineups m \<Rightarrow> True | _ \<Rightarrow> False)"

text \<open>A run only ever appends to the record of effects.\<close>

definition grows :: "'a run \<Rightarrow> bool" where
  "grows m = (\<forall>tr. prefix tr (snd (m tr)))"

text \<open>
  The end-to-end scenario of the specification: one match (id 123, week 5, Team A 2-1
  Team B), an event table, an empty frame table and the lineups of two teams; then the
  same provider with an empty match list, a provider that fails, and a file system that
  refuses every operation.
\<close>

definition example_matches :: dataframe where
  "example_matches =
     \<lparr>columns = [lit ''match_id'', lit ''match_week'', lit ''home_team'', lit ''away_team'',
                  lit ''home_score'', lit ''away_score''],
      rows = [[PInt 123, PInt 5, PStr (lit ''Team A''), PStr (lit ''Team B''), PInt 2, PInt 1]]\<rparr>"

definition example_events :: dataframe where
  "example_events =
     \<lparr>columns = [lit ''id'', lit ''match_id'', lit ''type''],
      rows = [[PStr (lit ''e1''), PInt 123, PStr (lit ''Pass'')],
              [PStr (lit ''e2''), PInt 123, PStr (lit ''Shot'')]]\<rparr>"

definition example_lineup :: dataframe where
  "example_lineup = \<lparr>columns = [lit ''player_name''], rows = [[PStr (lit ''P'')]]\<rparr>"

definition example_world :: world where
  "example_world =
     \<lparr>sb_matches = (\<lambda>c s. if c = 9 \<and> s = 281 then Inr example_matches else Inl ProviderError),
      sb_events = (\<lambda>m. Inr example_events),
      sb_frames = (\<lambda>m. Inr \<lparr>columns = [], rows = []\<rparr>),
      sb_lineups = (\<lambda>m. Inr [(lit ''Team A'', example_lineup), (lit ''Team B'', example_lineup)]),
      os_error = (\<lambda>p. False)\<rparr>"

definition empty_world :: world where
  "empty_world = example_world\<lparr>sb_matches := (\<lambda>c s. Inr \<lparr>columns = [lit ''match_id''], rows = []\<rparr>)\<rparr>"

definition team_row :: series where
  "team_row =
     map_of [(lit ''match_id'', PInt 123), (lit ''match_week'', PInt 5),
             (lit ''home_team'', PStr (lit ''Team A'')), (lit ''away_team'', PStr (lit ''Team B'')),
             (lit ''home_score'', PInt 2), (lit ''away_score'', PInt 1)]"

definition denied_world :: world where
  "denied_world = example_world\<lparr>os_error := (\<lambda>p. True)\<rparr>"

definition offline_world :: world where
  "offline_world = example_world\<lparr>sb_matches := (\<lambda>c s. Inl ProviderError)\<rparr>"

section \<open>Observations on the merge\<close>









definition string_events :: dataframe where
  "string_events =
     \<lparr>columns = [lit ''id'', lit ''match_id'', lit ''type''],
      rows = [[PStr (lit ''e1''), PStr (lit ''123''), PStr (lit ''Pass'')]]\<rparr>"

definition example_frames :: dataframe where
  "example_frames =
     \<lparr>columns = [lit ''event_uuid'', lit ''match_id'', lit ''visible_area''],
      rows = [[PStr (lit ''e1''), PInt 123, PStr (lit ''a'')],
              [PStr (lit ''e9''), PInt 123, PStr (lit ''b'')]]\<rparr>"


section \<open>Properties of the sanitizers\<close>

lemma rstrip_prefix: "prefix (rstrip s) s"
proof -
  have "suffix (dropWhile isspace (rev s)) (rev s)"
    by (rule suffix_dropWhile)
  then have "prefix (rev (dropWhile isspace (rev s))) (rev (rev s))"
    by (simp only: suffix_to_prefix)
  then show ?thesis by (simp add: rstrip_def)
qed

lemma set_rstrip: "set (rstrip s) \<subseteq> set s"
  using rstrip_prefix [of s] by (rule set_mono_prefix)

lemma rstrip_no_trailing: "\<not> trailing_space (rstrip s)"
proof (cases "dropWhile isspace (rev s)")
  case Nil
  then have "rev (rstrip s) = []"
    by (simp only: rstrip_def rev_rev_ident)
  then show ?thesis by (simp only: trailing_space_def list.case not_False_eq_True)
next
  case (Cons c cs)
  then have "\<not> isspace c"
    using hd_dropWhile [of isspace "rev s"] by auto
  with Cons show ?thesis by (simp add: trailing_space_def rstrip_def)
qed

lemma rstrip_fixed: "\<not> trailing_space s \<Longrightarrow> rstrip s = s"
  by (cases "rev s") (auto simp: trailing_space_def rstrip_def)

lemma rstrip_idem: "rstrip (rstrip s) = rstrip s"
  by (rule rstrip_fixed) (rule rstrip_no_trailing)

lemma filter_rstrip_kept: "filter P (rstrip (filter P s)) = rstrip (filter P s)"
proof -
  have "set (rstrip (filter P s)) \<subseteq> set (filter P s)"
    by (rule set_rstrip)
  then have "\<forall>c \<in> set (rstrip (filter P s)). P c"
    by auto
  then show ?thesis by (simp only: filter_id_conv)
qed

lemma lit_inj: "lit a = lit b \<longleftrightarrow> a = b"
  unfolding lit_def by (rule inj_map_eq_map) (rule inj_of_char)

text \<open>
  Claim C5: for every input string, \<open>sanitize_filename\<close> returns only alphanumerics,
  spaces, underscores and hyphens and no trailing whitespace, \<open>sanitize_team_name\<close>
  returns only alphanumerics; both return the empty string on the empty string and on
  a string \<open>t\<close> of which no character survives.
\<close>

theorem sanitizers_output_alphabet:
  "set (sanitize_filename L s)
     \<subseteq> {c. isalnum L c \<or> c = of_char CHR '' '' \<or> c = of_char CHR ''_'' \<or> c = of_char CHR ''-''}
   \<and> \<not> trailing_space (sanitize_filename L s)
   \<and> set (sanitize_team_name L s) \<subseteq> {c. isalnum L c}
   \<and> sanitize_filename L [] = [] \<and> sanitize_team_name L [] = []
   \<and> ((\<forall>c \<in> set t. \<not> keeps L c) \<longrightarrow> sanitize_filename L t = [])
   \<and> ((\<forall>c \<in> set t. \<not> isalnum L c) \<longrightarrow> sanitize_team_name L t = [])"
proof -
  have "set (sanitize_filename L s) \<subseteq> set (filter (keeps L) s)"
    unfolding sanitize_filename_def by (rule set_rstrip)
  then have a: "set (sanitize_filename L s)
      \<subseteq> {c. isalnum L c \<or> c = of_char CHR '' '' \<or> c = of_char CHR ''_'' \<or> c = of_char CHR ''-''}"
    by (auto simp: keeps_def)
  have b: "\<not> trailing_space (sanitize_filename L s)"
    unfolding sanitize_filename_def by (rule rstrip_no_trailing)
  have c: "set (sanitize_team_name L s) \<subseteq> {c. isalnum L c}"
    by (auto simp: sanitize_team_name_def)
  have d: "sanitize_filename L [] = []" "sanitize_team_name L [] = []"
    by (simp_all add: sanitize_filename_def sanitize_team_name_def rstrip_def)
  have e: "(\<forall>c \<in> set t. \<not> keeps L c) \<longrightarrow> sanitize_filename L t = []"
    by (simp add: sanitize_filename_def rstrip_def filter_empty_conv[THEN iffD2])
  have f: "(\<forall>c \<in> set t. \<not> isalnum L c) \<longrightarrow> sanitize_team_name L t = []"
    by (simp add: sanitize_team_name_def)
  from a b c d e f show ?thesis by blast
qed

theorem sanitizers_output_alphabet_witness:
  "\<not> list_ex (keeps ascii_lib) (lit ''#!'')
   \<and> \<not> list_ex (isalnum ascii_lib) (lit ''#!'')
   \<and> sanitize_filename ascii_lib (lit ''#!'') = []
   \<and> sanitize_team_name ascii_lib (lit ''#!'') = []
   \<and> sanitize_filename ascii_lib (lit ''Bayer 04! '') = lit ''Bayer 04''
   \<and> \<not> trailing_space (sanitize_filename ascii_lib (lit ''Bayer 04! ''))"
proof -
  have h1: "\<forall>c \<in> set (lit ''#!''). \<not> keeps ascii_lib c"
    by (simp add: lit_def keeps_def isalnum_def ascii_lib_def)
  have h2: "\<forall>c \<in> set (lit ''#!''). \<not> isalnum ascii_lib c"
    by (simp add: lit_def isalnum_def ascii_lib_def)
  have v: "sanitize_filename ascii_lib (lit ''Bayer 04! '') = lit ''Bayer 04''"
    by (simp add: sanitize_filename_def lit_def keeps_def isalnum_def ascii_lib_def
        rstrip_def isspace_def)
  from h1 h2 v sanitizers_output_alphabet [of ascii_lib "lit ''Bayer 04! ''" "lit ''#!''"]
  show ?thesis unfolding list_ex_iff by blast
qed

text \<open>
  Claim C7: both sanitizers are idempotent: sanitizing a sanitized string changes nothing.
\<close>

theorem sanitizers_idempotent:
  "sanitize_filename L (sanitize_filename L s) = sanitize_filename L s
   \<and> sanitize_team_name L (sanitize_team_name L s) = sanitize_team_name L s"
  by (simp add: sanitize_filename_def sanitize_team_name_def filter_rstrip_kept rstrip_idem)

text \<open>
  Claim C9: the output of each sanitizer is a subsequence of its input: characters are
  only deleted, never inserted, replaced or reordered.
\<close>

theorem sanitizers_subseq:
  "subseq (sanitize_filename L s) s \<and> subseq (sanitize_team_name L s) s"
proof
  have "subseq (rstrip (filter (keeps L) s)) (filter (keeps L) s)"
    using rstrip_prefix by (rule prefix_imp_subseq)
  then show "subseq (sanitize_filename L s) s"
    unfolding sanitize_filename_def using subseq_filter_left subseq_order.trans by blast
  show "subseq (sanitize_team_name L s) s"
    by (simp add: sanitize_team_name_def)
qed

section \<open>Properties of the metadata builder\<close>

declare digits.simps [simp del]

lemma digits_small: "n < 10 \<Longrightarrow> digits n = [48 + n]"
  by (simp add: digits.simps)

lemma lit_append: "lit a @ lit b = lit (a @ b)"
  by (simp add: lit_def)

lemma source_fields_eq:
  "source_fields =
     [(''match_date'', TStr), (''kick_off'', TStr), (''competition'', TStr),
      (''season'', TStr), (''home_team'', TStr), (''away_team'', TStr),
      (''home_score'', TInt), (''away_score'', TInt), (''match_status'', TStr),
      (''match_status_360'', TStr), (''last_updated'', TStr), (''last_updated_360'', TStr),
      (''match_week'', TInt), (''competition_stage'', TStr), (''stadium'', TStr),
      (''referee'', TStr), (''home_managers'', TList), (''away_managers'', TList),
      (''data_version'', TStr), (''shot_fidelity_version'', TStr),
      (''xy_fidelity_version'', TStr)]"
  by (simp add: source_fields_def metadata_fields_def)

lemma typed_rowD:
  "typed_row L row \<Longrightarrow> (k, t) \<in> set source_fields \<Longrightarrow> row (lit k) = Some v \<Longrightarrow> coerces L t v"
  by (auto simp: typed_row_def list_all_iff)

lemma int_field_ok:
  assumes "typed_row L row" "(k, TInt) \<in> set source_fields"
  shows "\<exists>i. py_int L (get row (lit k) (PInt 0)) = Inr i"
proof (cases "row (lit k)")
  case None
  then show ?thesis by (simp add: get_def py_int_def)
next
  case (Some v)
  with assms have "coerces L TInt v" by (blast dest: typed_rowD)
  with Some show ?thesis by (auto simp: coerces_def get_def split: sum.splits)
qed

lemma list_field_ok:
  assumes "typed_row L row" "(k, TList) \<in> set source_fields"
  shows "has_type TList (get row (lit k) (PList []))"
proof (cases "row (lit k)")
  case None
  then show ?thesis by (simp add: get_def has_type_def)
next
  case (Some v)
  with assms have "coerces L TList v" by (blast dest: typed_rowD)
  with Some show ?thesis by (simp add: coerces_def get_def)
qed

lemma metadata_value:
  assumes "typed_row L row"
  shows "\<exists>a b c. py_int L (get row (lit ''home_score'') (PInt 0)) = Inr a
     \<and> py_int L (get row (lit ''away_score'') (PInt 0)) = Inr b
     \<and> py_int L (get row (lit ''match_week'') (PInt 0)) = Inr c
     \<and> match_metadata L match_id row = Inr (metadata_items L match_id row a b c)"
proof -
  obtain a where a: "py_int L (get row (lit ''home_score'') (PInt 0)) = Inr a"
    using int_field_ok [OF assms, of "''home_score''"] by (auto simp: source_fields_eq)
  obtain b where b: "py_int L (get row (lit ''away_score'') (PInt 0)) = Inr b"
    using int_field_ok [OF assms, of "''away_score''"] by (auto simp: source_fields_eq)
  obtain c where c: "py_int L (get row (lit ''match_week'') (PInt 0)) = Inr c"
    using int_field_ok [OF assms, of "''match_week''"] by (auto simp: source_fields_eq)
  have "match_metadata L match_id row = Inr (metadata_items L match_id row a b c)"
    by (simp add: match_metadata_def a b c)
  with a b c show ?thesis by blast
qed

lemma metadata_items_names:
  "map fst (metadata_items L match_id row a b c) = map (\<lambda>(k, t). lit k) metadata_fields"
  by (simp add: metadata_items_def metadata_fields_def str_field_def)

lemma metadata_names_distinct: "distinct (map (\<lambda>(k, t). lit k) metadata_fields)"
  by (simp add: metadata_fields_def lit_inj)

lemma metadata_items_types:
  assumes "has_type TList (get row (lit ''home_managers'') (PList []))"
    and "has_type TList (get row (lit ''away_managers'') (PList []))"
  shows "list_all (\<lambda>(k, t). case map_of (metadata_items L match_id row a b c) (lit k) of
            None \<Rightarrow> False | Some v \<Rightarrow> has_type t v) metadata_fields"
  using assms
  by (simp add: metadata_items_def metadata_fields_def str_field_def lit_inj has_type_def)

lemma metadata_items_fixed:
  "map_of (metadata_items L match_id row a b c) (lit ''match_id'') = Some (PInt match_id)"
  "map_of (metadata_items L match_id row a b c) (lit ''competition_id'') = Some (PInt 9)"
  "map_of (metadata_items L match_id row a b c) (lit ''season_id'') = Some (PInt 281)"
  by (simp_all add: metadata_items_def str_field_def lit_inj)

lemma py_int_default: "py_int L (get row k (PInt 0)) = Inr a \<Longrightarrow> row k = None \<Longrightarrow> a = 0"
  by (simp add: get_def py_int_def)

lemma py_int_present:
  "py_int L (get row k d) = Inr a \<Longrightarrow> row k = Some v \<Longrightarrow> coerced L TInt v = PInt a"
  by (simp add: get_def coerced_def)

lemma metadata_items_defaults:
  assumes "py_int L (get row (lit ''home_score'') (PInt 0)) = Inr a"
    and "py_int L (get row (lit ''away_score'') (PInt 0)) = Inr b"
    and "py_int L (get row (lit ''match_week'') (PInt 0)) = Inr c"
  shows "list_all (\<lambda>(k, d). row (lit k) = None \<longrightarrow>
            map_of (metadata_items L match_id row a b c) (lit k) = Some d) documented_defaults"
  using py_int_default [OF assms(1)] py_int_default [OF assms(2)] py_int_default [OF assms(3)]
  by (simp add: metadata_items_def documented_defaults_def str_field_def lit_inj get_def py_str_def)

lemma metadata_items_present:
  assumes "py_int L (get row (lit ''home_score'') (PInt 0)) = Inr a"
    and "py_int L (get row (lit ''away_score'') (PInt 0)) = Inr b"
    and "py_int L (get row (lit ''match_week'') (PInt 0)) = Inr c"
  shows "list_all (\<lambda>(k, t). \<forall>v. row (lit k) = Some v \<longrightarrow>
            map_of (metadata_items L match_id row a b c) (lit k) = Some (coerced L t v))
          source_fields"
  using py_int_present [OF assms(1)] py_int_present [OF assms(2)] py_int_present [OF assms(3)]
  by (simp add: source_fields_eq metadata_items_def str_field_def lit_inj get_def coerced_def)

lemma metadata_items_no_null:
  assumes "has_type TList (get row (lit ''home_managers'') (PList []))"
    and "has_type TList (get row (lit ''away_managers'') (PList []))"
  shows "list_all (\<lambda>(k, v). v \<noteq> PNone \<and> v \<noteq> PNaN) (metadata_items L match_id row a b c)"
  using assms
  by (auto simp: metadata_items_def str_field_def has_type_def split: pyval.splits)

text \<open>
  A cell that is present but holds a missing-value marker is not an absent field for
  \<open>row.get\<close>: the default is not substituted. In an integer field it makes \<open>int\<close> raise,
  so that no metadata record is built; in a manager field it is passed through as it is.
  The first is the case of a row that has every team and score field but a NaN home score.
\<close>

theorem metadata_null_cell_counterexample:
  "match_metadata ascii_lib 123 null_score_row = Inl ValueError"
  by (simp add: match_metadata_def null_score_row_def get_def py_int_def lit_inj)

lemma metadata_null_score:
  "match_metadata L match_id [lit ''home_score'' \<mapsto> PNaN] = Inl ValueError"
  by (simp add: match_metadata_def get_def py_int_def)

lemma metadata_null_managers:
  "match_metadata L match_id [lit ''home_managers'' \<mapsto> PNone] =
     Inr (metadata_items L match_id [lit ''home_managers'' \<mapsto> PNone] 0 0 0)
   \<and> map_of (metadata_items L match_id [lit ''home_managers'' \<mapsto> PNone] 0 0 0)
         (lit ''home_managers'') = Some PNone"
  by (simp add: match_metadata_def metadata_items_def str_field_def get_def py_int_def lit_inj)

text \<open>
  Claim C1, as amended: for a match row lacking any subset of its fields, in which every
  present score or match-week cell is a value \<open>int\<close> accepts and every present manager
  cell is a list, the metadata builder returns a record with exactly the 24 fields of
  the field table, in order, each present and of its declared type: \<open>match_id\<close> is the
  selected id, \<open>competition_id\<close> 9 and \<open>season_id\<close> 281; every other field is its source
  cell coerced (\<open>int\<close>, \<open>str\<close>, or the manager cell unchanged) when the row has the field
  and the documented default when it has not; no field is a null.
\<close>

theorem metadata_complete:
  assumes "typed_row L match_row"
  shows "\<exists>md. match_metadata L match_id match_row = Inr md
     \<and> map fst md = map (\<lambda>(k, t). lit k) metadata_fields
     \<and> length md = 24 \<and> distinct (map fst md)
     \<and> list_all (\<lambda>(k, t). case map_of md (lit k) of None \<Rightarrow> False | Some v \<Rightarrow> has_type t v)
          metadata_fields
     \<and> map_of md (lit ''match_id'') = Some (PInt match_id)
     \<and> map_of md (lit ''competition_id'') = Some (PInt 9)
     \<and> map_of md (lit ''season_id'') = Some (PInt 281)
     \<and> list_all (\<lambda>(k, t). \<forall>v. match_row (lit k) = Some v \<longrightarrow>
            map_of md (lit k) = Some (coerced L t v)) source_fields
     \<and> list_all (\<lambda>(k, d). match_row (lit k) = None \<longrightarrow> map_of md (lit k) = Some d)
          documented_defaults
     \<and> list_all (\<lambda>(k, v). v \<noteq> PNone \<and> v \<noteq> PNaN) md"
proof -
  obtain a b c where abc:
    "py_int L (get match_row (lit ''home_score'') (PInt 0)) = Inr a"
    "py_int L (get match_row (lit ''away_score'') (PInt 0)) = Inr b"
    "py_int L (get match_row (lit ''match_week'') (PInt 0)) = Inr c"
    and md: "match_metadata L match_id match_row = Inr (metadata_items L match_id match_row a b c)"
    using metadata_value [OF assms] by blast
  have h: "has_type TList (get match_row (lit ''home_managers'') (PList []))"
    using list_field_ok [OF assms, of "''home_managers''"] by (simp add: source_fields_eq)
  have w: "has_type TList (get match_row (lit ''away_managers'') (PList []))"
    using list_field_ok [OF assms, of "''away_managers''"] by (simp add: source_fields_eq)
  let ?md = "metadata_items L match_id match_row a b c"
  have n: "map fst ?md = map (\<lambda>(k, t). lit k) metadata_fields"
    by (rule metadata_items_names)
  have l: "length ?md = 24"
    by (simp add: metadata_items_def)
  have d: "distinct (map fst ?md)"
    by (simp only: n metadata_names_distinct)
  note t = metadata_items_types [OF h w, of L match_id a b c]
  note x = metadata_items_fixed [of L match_id match_row a b c]
  note p = metadata_items_present [OF abc, of match_id]
  note f = metadata_items_defaults [OF abc, of match_id]
  note z = metadata_items_no_null [OF h w, of L match_id a b c]
  from md n l d t x p f z show ?thesis by blast
qed

theorem metadata_complete_witness:
  "typed_row ascii_lib example_row
   \<and> (\<exists>md. match_metadata ascii_lib 123 example_row = Inr md
     \<and> map fst md = map (\<lambda>(k, t). lit k) metadata_fields
     \<and> length md = 24
     \<and> map_of md (lit ''match_id'') = Some (PInt 123)
     \<and> map_of md (lit ''home_team'') = Some (PStr (lit ''Bayer Leverkusen''))
     \<and> map_of md (lit ''home_score'') = Some (PInt 3)
     \<and> map_of md (lit ''stadium'') = Some (PStr (lit ''Unknown''))
     \<and> map_of md (lit ''last_updated'') = Some (PStr (lit ''None''))
     \<and> map_of md (lit ''home_managers'') = Some (PList []))"
proof -
  have h: "typed_row ascii_lib example_row"
    by (simp add: typed_row_def source_fields_eq example_row_def lit_inj coerces_def
        py_int_def)
  from metadata_complete [OF h, of 123] obtain md where
    md: "match_metadata ascii_lib 123 example_row = Inr md"
      "map fst md = map (\<lambda>(k, t). lit k) metadata_fields" "length md = 24"
      "map_of md (lit ''match_id'') = Some (PInt 123)"
    and p: "list_all (\<lambda>(k, t). \<forall>v. example_row (lit k) = Some v \<longrightarrow>
            map_of md (lit k) = Some (coerced ascii_lib t v)) source_fields"
    and f: "list_all (\<lambda>(k, d). example_row (lit k) = None \<longrightarrow> map_of md (lit k) = Some d)
          documented_defaults"
    by blast
  from p have 1: "map_of md (lit ''home_team'') = Some (PStr (lit ''Bayer Leverkusen''))"
    and 2: "map_of md (lit ''home_score'') = Some (PInt 3)"
    by (simp_all add: source_fields_eq example_row_def lit_inj coerced_def py_str_def py_int_def)
  from f have 3: "map_of md (lit ''stadium'') = Some (PStr (lit ''Unknown''))"
    and 4: "map_of md (lit ''last_updated'') = Some (PStr (lit ''None''))"
    and 5: "map_of md (lit ''home_managers'') = Some (PList [])"
    by (simp_all add: documented_defaults_def example_row_def lit_inj)
  from h md 1 2 3 4 5 show ?thesis by blast
qed

section \<open>Properties of the directory name\<close>

lemma py_str_digit: "0 \<le> i \<Longrightarrow> i < 10 \<Longrightarrow> py_str L (PInt i) = [48 + nat i]"
  by (simp add: py_str_def str_of_int_def digits_small)

lemma example_home: "sanitize_team_name L (lit ''Bayer Leverkusen'') = lit ''BayerLeverkusen''"
  by (simp add: sanitize_team_name_def lit_def isalnum_def)

lemma example_away: "sanitize_team_name L (lit ''Bayern Munich'') = lit ''BayernMunich''"
  by (simp add: sanitize_team_name_def lit_def isalnum_def)

lemma example_dir_name:
  "match_dir_name L example_row = Inr (lit ''GW5_BayerLeverkusen_3-0_BayernMunich'')"
  by (simp add: match_dir_name_def example_row_def getitem_def get_def lit_inj
      sanitize_team_name_val_def example_home example_away py_str_digit)
    (simp add: lit_def)

text \<open>
  In the run the team names are read with \<open>row[...]\<close> before the metadata is built, so
  a row without \<open>home_team\<close> ends the run with \<open>KeyError\<close> there.
\<close>

lemma dir_name_requires_home_team:
  "match_row (lit ''home_team'') = None \<Longrightarrow> match_dir_name L match_row = Inl KeyError"
  by (simp add: match_dir_name_def getitem_def)

text \<open>
  Claim C6: the directory name is \<open>GW{week}_{home}_{homeScore}-{awayScore}_{away}\<close> with
  the team names sanitized and the week and the scores inserted as they are; for week 5,
  Bayer Leverkusen 3, Bayern Munich 0 it is \<open>GW5_BayerLeverkusen_3-0_BayernMunich\<close>.
\<close>

theorem match_dir_name_format:
  assumes "match_row (lit ''home_team'') = Some (PStr home)"
    and "match_row (lit ''away_team'') = Some (PStr away)"
  shows "match_dir_name L match_row =
     Inr (lit ''GW'' @ py_str L (get match_row (lit ''match_week'') (PInt 0)) @ lit ''_''
          @ sanitize_team_name L home @ lit ''_''
          @ py_str L (get match_row (lit ''home_score'') (PInt 0)) @ lit ''-''
          @ py_str L (get match_row (lit ''away_score'') (PInt 0)) @ lit ''_''
          @ sanitize_team_name L away)
     \<and> match_dir_name L example_row = Inr (lit ''GW5_BayerLeverkusen_3-0_BayernMunich'')"
proof
  from assms show "match_dir_name L match_row =
     Inr (lit ''GW'' @ py_str L (get match_row (lit ''match_week'') (PInt 0)) @ lit ''_''
          @ sanitize_team_name L home @ lit ''_''
          @ py_str L (get match_row (lit ''home_score'') (PInt 0)) @ lit ''-''
          @ py_str L (get match_row (lit ''away_score'') (PInt 0)) @ lit ''_''
          @ sanitize_team_name L away)"
    by (simp add: match_dir_name_def getitem_def sanitize_team_name_val_def)
  show "match_dir_name L example_row = Inr (lit ''GW5_BayerLeverkusen_3-0_BayernMunich'')"
    by (rule example_dir_name)
qed

theorem match_dir_name_format_witness:
  "example_row (lit ''home_team'') = Some (PStr (lit ''Bayer Leverkusen''))
   \<and> example_row (lit ''away_team'') = Some (PStr (lit ''Bayern Munich''))
   \<and> match_dir_name ascii_lib example_row =
     Inr (lit ''GW'' @ py_str ascii_lib (get example_row (lit ''match_week'') (PInt 0)) @ lit ''_''
          @ sanitize_team_name ascii_lib (lit ''Bayer Leverkusen'') @ lit ''_''
          @ py_str ascii_lib (get example_row (lit ''home_score'') (PInt 0)) @ lit ''-''
          @ py_str ascii_lib (get example_row (lit ''away_score'') (PInt 0)) @ lit ''_''
          @ sanitize_team_name ascii_lib (lit ''Bayern Munich''))"
proof -
  have h: "example_row (lit ''home_team'') = Some (PStr (lit ''Bayer Leverkusen''))"
    by (simp add: example_row_def lit_inj)
  have a: "example_row (lit ''away_team'') = Some (PStr (lit ''Bayern Munich''))"
    by (simp add: example_row_def lit_inj)
  from h a match_dir_name_format [OF h a, of ascii_lib] show ?thesis by blast
qed

section \<open>Properties of the run\<close>

lemma grows_ret: "grows (ret x)"
  by (simp add: grows_def ret_def)

lemma grows_lift: "grows (lift r)"
  by (simp add: grows_def lift_def)

lemma grows_print: "grows (print m)"
  by (simp add: grows_def print_def)

lemma grows_makedirs: "grows (makedirs W p)"
  by (simp add: grows_def makedirs_def)

lemma grows_write_file: "grows (write_file W p c)"
  by (simp add: grows_def write_file_def)

lemma grows_calls:
  "grows (call_matches W c s)" "grows (call_events W m)" "grows (call_frames W m)"
  "grows (call_lineups W m)"
  by (simp_all add: grows_def call_matches_def call_events_def call_frames_def call_lineups_def)

lemma grows_andthen:
  assumes "grows m" and "\<And>x. grows (f x)"
  shows "grows (andthen m f)"
proof -
  have "prefix tr (snd (andthen m f tr))" for tr
  proof (cases "m tr")
    case (Pair r tr')
    from assms(1) Pair have p: "prefix tr tr'"
      by (metis grows_def snd_conv)
    show ?thesis
    proof (cases r)
      case (Inl e)
      with Pair p show ?thesis by (simp add: andthen_def)
    next
      case (Inr x)
      from assms(2) have "prefix tr' (snd (f x tr'))"
        by (simp add: grows_def)
      with p have "prefix tr (snd (f x tr'))"
        by (rule prefix_order.trans)
      with Pair Inr show ?thesis by (simp add: andthen_def)
    qed
  qed
  then show ?thesis by (simp add: grows_def)
qed

lemma grows_save_lineups: "grows (save_lineups W L d ls)"
  by (induction ls) (auto intro!: grows_andthen grows_ret grows_write_file)

lemma grows_save_frames: "grows (save_frames W L d f e)"
  unfolding save_frames_def
  by (auto intro!: grows_andthen grows_lift grows_ret grows_write_file split: option.split)

lemma grows_persist_match: "grows (persist_match W L d n i r)"
  unfolding persist_match_def
  by (intro grows_andthen grows_calls grows_save_lineups grows_print grows_save_frames
      grows_write_file grows_lift)

lemma grows_download_body: "grows (download_body W L b)"
  unfolding download_body_def
  by (intro grows_andthen grows_calls grows_lift grows_makedirs grows_persist_match)

lemma grows_download: "grows (download_leverkusen_data W L b)"
proof -
  have "prefix tr (snd (download_leverkusen_data W L b tr))" for tr
  proof (cases "download_body W L b tr")
    case (Pair r tr')
    from grows_download_body [of W L b] Pair have p: "prefix tr tr'"
      by (metis grows_def snd_conv)
    then have "prefix tr (tr' @ [Print (ErrorOccurred e)])" for e
      by (simp add: prefix_prefix)
    with p Pair show ?thesis
      by (cases r) (simp_all add: download_leverkusen_data_def)
  qed
  then show ?thesis by (simp add: grows_def)
qed

lemma download_empty:
  assumes "sb_matches W 9 281 = Inr matches" and "rows matches = []"
  shows "download_leverkusen_data W L base_path tr =
     (Inl IndexError, tr @ [CallMatches 9 281, Print (ErrorOccurred IndexError)])"
  using assms
  by (simp add: download_leverkusen_data_def download_body_def andthen_def call_matches_def
      lift_def iloc0_def)

lemma download_provider_failure:
  assumes "sb_matches W 9 281 = Inl e"
  shows "download_leverkusen_data W L base_path tr =
     (Inl e, tr @ [CallMatches 9 281, Print (ErrorOccurred e)])"
  using assms
  by (simp add: download_leverkusen_data_def download_body_def andthen_def call_matches_def)

text \<open>
  Claim C3: on an empty match list the selection of the first row fails (the
  \<open>IndexError\<close> of \<open>iloc[0]\<close>, the specification's EmptyResultError) and the run
  aborts, having made the match-list call only: no event, frame or lineup fetch.
\<close>

theorem empty_match_list_aborts:
  assumes "sb_matches W 9 281 = Inr matches" and "rows matches = []"
  shows "download_leverkusen_data W L base_path tr =
     (Inl IndexError, tr @ [CallMatches 9 281, Print (ErrorOccurred IndexError)])
     \<and> \<not> list_ex fetches (drop (length tr) (snd (download_leverkusen_data W L base_path tr)))"
  by (simp add: download_empty [OF assms] fetches_def)

theorem empty_match_list_aborts_witness:
  "sb_matches empty_world 9 281 = Inr \<lparr>columns = [lit ''match_id''], rows = []\<rparr>
   \<and> rows \<lparr>columns = [lit ''match_id''], rows = []\<rparr> = []
   \<and> download_leverkusen_data empty_world ascii_lib (lit ''matches'') [] =
       (Inl IndexError, [CallMatches 9 281, Print (ErrorOccurred IndexError)])
   \<and> \<not> list_ex fetches (snd (download_leverkusen_data empty_world ascii_lib (lit ''matches'') []))"
proof -
  have h: "sb_matches empty_world 9 281 = Inr \<lparr>columns = [lit ''match_id''], rows = []\<rparr>"
    by (simp add: empty_world_def)
  have e: "rows \<lparr>columns = [lit ''match_id''], rows = []\<rparr> = []"
    by simp
  from h e empty_match_list_aborts [OF h e, of ascii_lib "lit ''matches''" "[]"]
  show ?thesis by (simp add: fetches_def)
qed

lemma main_start:
  assumes "\<not> os_error W (lit ''matches'')"
  shows "main W L [] =
     andthen (download_leverkusen_data W L (lit ''matches'')) (\<lambda>_. print Complete)
       [MakeDirs (lit ''matches'')]"
  using assms
  by (simp add: main_def create_data_directory_def andthen_def makedirs_def ret_def)

text \<open>
  Claim C10: the base directory \<open>matches\<close> is created before anything else. When that
  fails nothing else happens; otherwise the record of every run, whatever its outcome,
  starts with that creation, and a run that aborts on an empty match list or on a failing
  match-list call has created nothing but the base directory.
\<close>

theorem base_directory_first:
  "(os_error W (lit ''matches'') \<longrightarrow> main W L [] = (Inl OSError, []))
   \<and> (\<not> os_error W (lit ''matches'') \<longrightarrow>
        (\<exists>rest. snd (main W L []) = MakeDirs (lit ''matches'') # rest))
   \<and> (\<not> os_error W (lit ''matches'') \<longrightarrow> sb_matches W 9 281 = Inr matches \<longrightarrow> rows matches = [] \<longrightarrow>
        main W L [] = (Inl IndexError,
          [MakeDirs (lit ''matches''), CallMatches 9 281, Print (ErrorOccurred IndexError)]))
   \<and> (\<not> os_error W (lit ''matches'') \<longrightarrow> sb_matches W 9 281 = Inl e \<longrightarrow>
        main W L [] = (Inl e,
          [MakeDirs (lit ''matches''), CallMatches 9 281, Print (ErrorOccurred e)]))"
proof (intro conjI impI)
  assume "os_error W (lit ''matches'')"
  then show "main W L [] = (Inl OSError, [])"
    by (simp add: main_def create_data_directory_def andthen_def makedirs_def)
next
  assume ok: "\<not> os_error W (lit ''matches'')"
  have "grows (andthen (download_leverkusen_data W L (lit ''matches'')) (\<lambda>_. print Complete))"
    by (intro grows_andthen grows_download grows_print)
  then have "prefix [MakeDirs (lit ''matches'')] (snd (main W L []))"
    by (simp add: grows_def main_start [OF ok])
  then show "\<exists>rest. snd (main W L []) = MakeDirs (lit ''matches'') # rest"
    by (auto simp: prefix_def)
next
  assume ok: "\<not> os_error W (lit ''matches'')"
    and m: "sb_matches W 9 281 = Inr matches" "rows matches = []"
  show "main W L [] = (Inl IndexError,
          [MakeDirs (lit ''matches''), CallMatches 9 281, Print (ErrorOccurred IndexError)])"
    by (simp add: main_start [OF ok] andthen_def download_empty [OF m])
next
  assume ok: "\<not> os_error W (lit ''matches'')"
    and m: "sb_matches W 9 281 = Inl e"
  show "main W L [] = (Inl e,
          [MakeDirs (lit ''matches''), CallMatches 9 281, Print (ErrorOccurred e)])"
    by (simp add: main_start [OF ok] andthen_def download_provider_failure [OF m])
qed

theorem base_directory_first_witness:
  "main empty_world ascii_lib [] =
     (Inl IndexError, [MakeDirs (lit ''matches''), CallMatches 9 281, Print (ErrorOccurred IndexError)])
   \<and> main offline_world ascii_lib [] =
     (Inl ProviderError, [MakeDirs (lit ''matches''), CallMatches 9 281, Print (ErrorOccurred ProviderError)])
   \<and> main denied_world ascii_lib [] = (Inl OSError, [])
   \<and> (\<exists>rest. snd (main example_world ascii_lib []) = MakeDirs (lit ''matches'') # rest)"
proof -
  have a: "\<not> os_error empty_world (lit ''matches'')"
    and b: "sb_matches empty_world 9 281 = Inr \<lparr>columns = [lit ''match_id''], rows = []\<rparr>"
    by (simp_all add: empty_world_def example_world_def)
  have c: "\<not> os_error offline_world (lit ''matches'')"
    and d: "sb_matches offline_world 9 281 = Inl ProviderError"
    by (simp_all add: offline_world_def example_world_def)
  have e: "os_error denied_world (lit ''matches'')"
    by (simp add: denied_world_def)
  have f: "\<not> os_error example_world (lit ''matches'')"
    by (simp add: example_world_def)
  from a b base_directory_first [of empty_world ascii_lib "\<lparr>columns = [lit ''match_id''], rows = []\<rparr>"]
  have 1: "main empty_world ascii_lib [] =
     (Inl IndexError, [MakeDirs (lit ''matches''), CallMatches 9 281, Print (ErrorOccurred IndexError)])"
    by simp
  from c d base_directory_first [of offline_world ascii_lib _ ProviderError]
  have 2: "main offline_world ascii_lib [] =
     (Inl ProviderError, [MakeDirs (lit ''matches''), CallMatches 9 281, Print (ErrorOccurred ProviderError)])"
    by simp
  from e base_directory_first [of denied_world ascii_lib]
  have 3: "main denied_world ascii_lib [] = (Inl OSError, [])"
    by simp
  from f base_directory_first [of example_world ascii_lib]
  have 4: "\<exists>rest. snd (main example_world ascii_lib []) = MakeDirs (lit ''matches'') # rest"
    by simp
  from 1 2 3 4 show ?thesis by blast
qed

lemma save_lineups_ok:
  assumes "\<forall>p. \<not> os_error W p"
  shows "save_lineups W L d ls tr =
     (Inr (), tr @ map (\<lambda>(team, df).
        WriteFile (path_join d (sanitize_team_name L team @ lit ''_lineups.csv'')) (Csv df)) ls)"
  using assms
  by (induction ls arbitrary: tr) (auto simp: ret_def andthen_def write_file_def)

lemma persist_match_empty_frames:
  assumes "sb_events W match_id = Inr events_df" and "sb_frames W match_id = Inr frames_df"
    and "sb_lineups W match_id = Inr lineups" and "df_empty frames_df"
    and "match_metadata L match_id match_row = Inr metadata" and "\<forall>p. \<not> os_error W p"
  shows "persist_match W L d name match_id match_row tr =
     (Inr (), tr @ [CallEvents match_id, CallFrames match_id, CallLineups match_id]
        @ map (\<lambda>(team, df).
            WriteFile (path_join d (sanitize_team_name L team @ lit ''_lineups.csv'')) (Csv df)) lineups
        @ [Print (EventsColumns (columns events_df)), Print (FramesColumns (columns frames_df)),
           WriteFile (path_join d (lit ''events.csv'')) (Csv events_df),
           WriteFile (path_join d (lit ''metadata.json'')) (Json metadata),
           Print (Processed name)])"
  using assms
  by (simp add: persist_match_def andthen_def call_events_def call_frames_def call_lineups_def
      save_lineups_ok print_def save_frames_def merge_frames_def lift_def ret_def write_file_def)

lemma download_empty_frames:
  assumes "sb_matches W 9 281 = Inr matches" and "iloc0 matches = Inr match_row"
    and "getitem match_row (lit ''match_id'') = Inr v" and "py_int L v = Inr match_id"
    and "match_dir_name L match_row = Inr name"
    and "sb_events W match_id = Inr events_df" and "sb_frames W match_id = Inr frames_df"
    and "sb_lineups W match_id = Inr lineups" and "df_empty frames_df"
    and "match_metadata L match_id match_row = Inr metadata" and "\<forall>p. \<not> os_error W p"
  shows "download_leverkusen_data W L base_path tr =
     (Inr (), tr @ [CallMatches 9 281, MakeDirs (path_join base_path name),
           CallEvents match_id, CallFrames match_id, CallLineups match_id]
        @ map (\<lambda>(team, df).
            WriteFile (path_join (path_join base_path name)
              (sanitize_team_name L team @ lit ''_lineups.csv'')) (Csv df)) lineups
        @ [Print (EventsColumns (columns events_df)), Print (FramesColumns (columns frames_df)),
           WriteFile (path_join (path_join base_path name) (lit ''events.csv'')) (Csv events_df),
           WriteFile (path_join (path_join base_path name) (lit ''metadata.json'')) (Json metadata),
           Print (Processed name)])"
  using assms(1-5,11)
  by (simp add: download_leverkusen_data_def download_body_def andthen_def call_matches_def
      lift_def makedirs_def persist_match_empty_frames [OF assms(6-11)])

lemma isalnum_not_slash: "isalnum L c \<Longrightarrow> c \<noteq> 47"
  by (auto simp: isalnum_def)

lemma lineups_no_slash: "\<not> starts_slash (sanitize_team_name L team @ lit ''_lineups.csv'')"
proof (cases "sanitize_team_name L team")
  case Nil
  then show ?thesis by (simp add: starts_slash_def lit_def)
next
  case (Cons c cs)
  then have "c \<in> set (filter (isalnum L) team)"
    by (simp add: sanitize_team_name_def)
  then have "isalnum L c" by simp
  then have "c \<noteq> 47" by (rule isalnum_not_slash)
  with Cons show ?thesis by (simp add: starts_slash_def)
qed

lemma lineups_not_frames: "s @ lit ''_lineups.csv'' \<noteq> lit ''360_frames.csv''"
proof
  assume eq: "s @ lit ''_lineups.csv'' = lit ''360_frames.csv''"
  then have "length (s @ lit ''_lineups.csv'') = length (lit ''360_frames.csv'')"
    by simp
  then have l: "length s = 2" by (simp add: lit_def)
  from eq have "drop (length s) (s @ lit ''_lineups.csv'') = drop (length s) (lit ''360_frames.csv'')"
    by simp
  then show False by (simp add: l lit_def)
qed

lemma path_join_inj:
  "\<not> starts_slash x \<Longrightarrow> \<not> starts_slash y \<Longrightarrow> path_join d x = path_join d y \<Longrightarrow> x = y"
  by (simp add: path_join_def split: if_splits)

lemma frames_no_slash: "\<not> starts_slash (lit ''360_frames.csv'')"
  by (simp add: starts_slash_def lit_def)

lemma lineups_path_not_frames:
  "path_join d (lit ''360_frames.csv'') \<noteq> path_join d (sanitize_team_name L team @ lit ''_lineups.csv'')"
  using path_join_inj [OF lineups_no_slash frames_no_slash] lineups_not_frames by metis

lemma other_paths_not_frames:
  "path_join d (lit ''360_frames.csv'') \<noteq> path_join d (lit ''events.csv'')"
  "path_join d (lit ''360_frames.csv'') \<noteq> path_join d (lit ''metadata.json'')"
proof -
  have e: "\<not> starts_slash (lit ''events.csv'')" and m: "\<not> starts_slash (lit ''metadata.json'')"
    by (simp_all add: starts_slash_def lit_def)
  show "path_join d (lit ''360_frames.csv'') \<noteq> path_join d (lit ''events.csv'')"
    using path_join_inj [OF frames_no_slash e, of d] by (auto simp: lit_inj)
  show "path_join d (lit ''360_frames.csv'') \<noteq> path_join d (lit ''metadata.json'')"
    using path_join_inj [OF frames_no_slash m, of d] by (auto simp: lit_inj)
qed

lemma team_names:
  "sanitize_team_name L (lit ''Team A'') = lit ''TeamA''"
  "sanitize_team_name L (lit ''Team B'') = lit ''TeamB''"
  by (simp_all add: sanitize_team_name_def lit_def isalnum_def)

lemma team_dir_name: "match_dir_name L team_row = Inr (lit ''GW5_TeamA_2-1_TeamB'')"
  by (simp add: match_dir_name_def team_row_def getitem_def get_def lit_inj
      sanitize_team_name_val_def team_names py_str_digit)
    (simp add: lit_def)

lemma team_metadata:
  "match_metadata ascii_lib 123 team_row = Inr (metadata_items ascii_lib 123 team_row 2 1 5)"
  by (simp add: match_metadata_def team_row_def get_def lit_inj py_int_def)

text \<open>
  Claim C4: when the frame table is empty the merge is skipped: the run succeeds, writes
  the lineup files, the events file and the metadata document, and writes no
  \<open>360_frames.csv\<close>.
\<close>

theorem empty_frames_skip_merge:
  assumes "sb_matches W 9 281 = Inr matches" and "iloc0 matches = Inr match_row"
    and "getitem match_row (lit ''match_id'') = Inr v" and "py_int L v = Inr match_id"
    and "match_dir_name L match_row = Inr name"
    and "sb_events W match_id = Inr events_df" and "sb_frames W match_id = Inr frames_df"
    and "sb_lineups W match_id = Inr lineups" and "df_empty frames_df"
    and "match_metadata L match_id match_row = Inr metadata" and "\<forall>p. \<not> os_error W p"
  shows "download_leverkusen_data W L base_path tr =
     (Inr (), tr @ [CallMatches 9 281, MakeDirs (path_join base_path name),
           CallEvents match_id, CallFrames match_id, CallLineups match_id]
        @ map (\<lambda>(team, df).
            WriteFile (path_join (path_join base_path name)
              (sanitize_team_name L team @ lit ''_lineups.csv'')) (Csv df)) lineups
        @ [Print (EventsColumns (columns events_df)), Print (FramesColumns (columns frames_df)),
           WriteFile (path_join (path_join base_path name) (lit ''events.csv'')) (Csv events_df),
           WriteFile (path_join (path_join base_path name) (lit ''metadata.json'')) (Json metadata),
           Print (Processed name)])
     \<and> (\<forall>c. WriteFile (path_join (path_join base_path name) (lit ''360_frames.csv'')) c
            \<notin> set (drop (length tr) (snd (download_leverkusen_data W L base_path tr))))"
  by (auto simp: download_empty_frames [OF assms] lineups_path_not_frames other_paths_not_frames)

theorem empty_frames_skip_merge_witness:
  "download_leverkusen_data example_world ascii_lib (lit ''matches'') [] =
     (Inr (), [CallMatches 9 281, MakeDirs (lit ''matches/GW5_TeamA_2-1_TeamB''),
        CallEvents 123, CallFrames 123, CallLineups 123,
        WriteFile (lit ''matches/GW5_TeamA_2-1_TeamB/TeamA_lineups.csv'') (Csv example_lineup),
        WriteFile (lit ''matches/GW5_TeamA_2-1_TeamB/TeamB_lineups.csv'') (Csv example_lineup),
        Print (EventsColumns (columns example_events)), Print (FramesColumns []),
        WriteFile (lit ''matches/GW5_TeamA_2-1_TeamB/events.csv'') (Csv example_events),
        WriteFile (lit ''matches/GW5_TeamA_2-1_TeamB/metadata.json'')
          (Json (metadata_items ascii_lib 123 team_row 2 1 5)),
        Print (Processed (lit ''GW5_TeamA_2-1_TeamB''))])
   \<and> (\<forall>c. WriteFile (lit ''matches/GW5_TeamA_2-1_TeamB/360_frames.csv'') c
          \<notin> set (snd (download_leverkusen_data example_world ascii_lib (lit ''matches'') [])))"
proof -
  have 1: "sb_matches example_world 9 281 = Inr example_matches"
    by (simp add: example_world_def)
  have 2: "iloc0 example_matches = Inr team_row"
    by (simp add: iloc0_def example_matches_def team_row_def)
  have 3: "getitem team_row (lit ''match_id'') = Inr (PInt 123)"
    by (simp add: getitem_def team_row_def)
  have 4: "py_int ascii_lib (PInt 123) = Inr 123"
    by (simp add: py_int_def)
  have 6: "sb_events example_world 123 = Inr example_events"
    and 7: "sb_frames example_world 123 = Inr \<lparr>columns = [], rows = []\<rparr>"
    and 8: "sb_lineups example_world 123 =
      Inr [(lit ''Team A'', example_lineup), (lit ''Team B'', example_lineup)]"
    and 11: "\<forall>p. \<not> os_error example_world p"
    by (simp_all add: example_world_def)
  have 9: "df_empty \<lparr>columns = [], rows = []\<rparr>"
    by (simp add: df_empty_def)
  have p: "path_join (lit ''matches'') (lit ''GW5_TeamA_2-1_TeamB'') = lit ''matches/GW5_TeamA_2-1_TeamB''"
    by (simp add: path_join_def starts_slash_def ends_slash_def lit_def)
  have q: "path_join (lit ''matches/GW5_TeamA_2-1_TeamB'') (lit x) =
      lit (''matches/GW5_TeamA_2-1_TeamB/'' @ x)" if "\<not> starts_slash (lit x)" for x
    using that by (simp add: path_join_def ends_slash_def lit_def)
  have s: "sanitize_team_name ascii_lib (lit ''Team A'') @ lit ''_lineups.csv'' = lit ''TeamA_lineups.csv''"
    "sanitize_team_name ascii_lib (lit ''Team B'') @ lit ''_lineups.csv'' = lit ''TeamB_lineups.csv''"
    by (simp_all add: team_names lit_append)
  have n: "\<not> starts_slash (lit ''TeamA_lineups.csv'')" "\<not> starts_slash (lit ''TeamB_lineups.csv'')"
    "\<not> starts_slash (lit ''events.csv'')" "\<not> starts_slash (lit ''metadata.json'')"
    "\<not> starts_slash (lit ''360_frames.csv'')"
    by (simp_all add: starts_slash_def lit_def)
  from empty_frames_skip_merge [OF 1 2 3 4 team_dir_name 6 7 8 9 team_metadata 11,
      of "lit ''matches''" "[]"]
  show ?thesis
    by (simp add: p s q [OF n(1)] q [OF n(2)] q [OF n(3)] q [OF n(4)] q [OF n(5)] lit_inj)
qed

section \<open>Properties of the merge\<close>




























lemmas merge_eval =
  merge_frames_def df_empty_def pd_merge_left_def rename_column_def left_labels_def
  right_labels_def other_columns_def join_row_def matching_def key_values_def key_match_def
  other_values_def column_def key_dtypes_accepted_def col_dtype_def is_int_def is_str_def
  is_list_def is_null_def lit_inj





text \<open>
  The merge refuses key columns of incompatible dtypes, here integer match identifiers
  against strings, and it joins key cells that are both missing.
\<close>

lemma string_keys_merge:
  "merge_frames ascii_lib example_frames string_events = Inl ValueError"
  by (simp add: merge_eval example_frames_def string_events_def ascii_lib_def)

lemma null_keys_match:
  "merge_frames L
     \<lparr>columns = [lit ''event_uuid'', lit ''match_id''],
      rows = [[PNone, PInt 123], [PStr (lit ''e1''), PInt 123]]\<rparr>
     \<lparr>columns = [lit ''id'', lit ''match_id'', lit ''type''],
      rows = [[PStr (lit ''e1''), PInt 123, PStr (lit ''Pass'')],
              [PNaN, PInt 123, PStr (lit ''Shot'')]]\<rparr> =
   Inr (Some \<lparr>columns = [lit ''id'', lit ''match_id'', lit ''type''],
              rows = [[PNone, PInt 123, PStr (lit ''Shot'')],
                      [PStr (lit ''e1''), PInt 123, PStr (lit ''Pass'')]]\<rparr>)"
  by (simp add: merge_eval)







end
